theory Spec2Isabelle
  imports Main "HOL-Library.Word" "HOL-Library.AList"
begin

unbundle bit_operations_syntax

section \<open>Python strings and their UTF-8 encoding\<close>

text \<open>
  A Python \<open>str\<close> is a sequence of Unicode code points, so it is modelled as a list of
  natural numbers (every element of a real \<open>str\<close> is below \<open>0x110000\<close>). The literals
  of the source are ASCII; \<open>py\<close> turns an Isabelle literal into its code points.
\<close>

type_synonym pystr = "nat list"
type_synonym byte = "8 word"
type_synonym u32 = "32 word"

definition py :: "string \<Rightarrow> pystr" where
  "py s = map of_char s"

text \<open>
  The exceptions the modelled code can meet. The ones of the file system and of the JSON
  decoder are supplied by the store's state; \<open>KeyError\<close> carries the missing key.
\<close>

datatype exn =
    FileNotFoundError
  | PermissionError
  | OSError
  | JSONDecodeError
  | UnicodeEncodeError
  | KeyError pystr
  | TypeError

text \<open>
  \<open>str.encode()\<close> with its defaults: UTF-8, strict. A surrogate code point
  (\<open>0xD800\<close> to \<open>0xDFFF\<close>) has no UTF-8 encoding and raises \<open>UnicodeEncodeError\<close>.
\<close>

definition surrogate :: "nat \<Rightarrow> bool" where
  "surrogate c = (0xD800 \<le> c \<and> c \<le> 0xDFFF)"

definition utf8_char :: "nat \<Rightarrow> byte list" where
  "utf8_char c =
     (if c < 0x80 then [of_nat c]
      else if c < 0x800 then [of_nat (0xC0 + c div 64), of_nat (0x80 + c mod 64)]
      else if c < 0x10000 then
        [of_nat (0xE0 + c div 4096), of_nat (0x80 + c div 64 mod 64), of_nat (0x80 + c mod 64)]
      else
        [of_nat (0xF0 + c div 262144), of_nat (0x80 + c div 4096 mod 64),
         of_nat (0x80 + c div 64 mod 64), of_nat (0x80 + c mod 64)])"

fun encode :: "pystr \<Rightarrow> exn + byte list" where
  "encode [] = Inr []"
| "encode (c # cs) =
     (if surrogate c then Inl UnicodeEncodeError
      else case encode cs of Inl e \<Rightarrow> Inl e | Inr bs \<Rightarrow> Inr (utf8_char c @ bs))"

definition encodable :: "pystr \<Rightarrow> bool" where
  "encodable p = list_all (\<lambda>c. \<not> surrogate c) p"

section \<open>SHA-256 (\<open>hashlib.sha256\<close>) and \<open>hexdigest\<close>\<close>

text \<open>
  The round constants and the initial hash value of FIPS 180-4, in decimal.
\<close>

definition sha256_K :: "u32 list" where
  "sha256_K =
    [1116352408, 1899447441, 3049323471, 3921009573, 961987163, 1508970993,
     2453635748, 2870763221, 3624381080, 310598401, 607225278, 1426881987,
     1925078388, 2162078206, 2614888103, 3248222580, 3835390401, 4022224774,
     264347078, 604807628, 770255983, 1249150122, 1555081692, 1996064986,
     2554220882, 2821834349, 2952996808, 3210313671, 3336571891, 3584528711,
     113926993, 338241895, 666307205, 773529912, 1294757372, 1396182291,
     1695183700, 1986661051, 2177026350, 2456956037, 2730485921, 2820302411,
     3259730800, 3345764771, 3516065817, 3600352804, 4094571909, 275423344,
     430227734, 506948616, 659060556, 883997877, 958139571, 1322822218,
     1537002063, 1747873779, 1955562222, 2024104815, 2227730452, 2361852424,
     2428436474, 2756734187, 3204031479, 3329325298]"

definition sha256_H0 :: "u32 list" where
  "sha256_H0 =
    [1779033703, 3144134277, 1013904242, 2773480762,
     1359893119, 2600822924, 528734635, 1541459225]"

definition rotr :: "nat \<Rightarrow> u32 \<Rightarrow> u32" where
  "rotr n x = drop_bit n x OR push_bit (32 - n) x"

definition ssig0 :: "u32 \<Rightarrow> u32" where
  "ssig0 x = rotr 7 x XOR rotr 18 x XOR drop_bit 3 x"

definition ssig1 :: "u32 \<Rightarrow> u32" where
  "ssig1 x = rotr 17 x XOR rotr 19 x XOR drop_bit 10 x"

definition bsig0 :: "u32 \<Rightarrow> u32" where
  "bsig0 x = rotr 2 x XOR rotr 13 x XOR rotr 22 x"

definition bsig1 :: "u32 \<Rightarrow> u32" where
  "bsig1 x = rotr 6 x XOR rotr 11 x XOR rotr 25 x"

definition ch :: "u32 \<Rightarrow> u32 \<Rightarrow> u32 \<Rightarrow> u32" where
  "ch x y z = (x AND y) XOR (NOT x AND z)"

definition maj :: "u32 \<Rightarrow> u32 \<Rightarrow> u32 \<Rightarrow> u32" where
  "maj x y z = (x AND y) XOR (x AND z) XOR (y AND z)"

definition be64 :: "nat \<Rightarrow> byte list" where
  "be64 n = map (\<lambda>i. of_nat (n div 2 ^ (8 * (7 - i)))) [0..<8]"

definition pad :: "byte list \<Rightarrow> byte list" where
  "pad m = m @ [0x80] @ replicate ((119 - length m mod 64) mod 64) 0 @ be64 (8 * length m)"

fun be_words :: "byte list \<Rightarrow> u32 list" where
  "be_words (a # b # c # d # bs) =
     (push_bit 24 (ucast a) OR push_bit 16 (ucast b) OR push_bit 8 (ucast c) OR ucast d) # be_words bs"
| "be_words _ = []"

fun schedule :: "nat \<Rightarrow> u32 list \<Rightarrow> u32 list" where
  "schedule 0 w = w"
| "schedule (Suc n) w =
     (let t = length w
      in schedule n (w @ [ssig1 (w ! (t - 2)) + w ! (t - 7) + ssig0 (w ! (t - 15)) + w ! (t - 16)]))"

fun round :: "u32 list \<Rightarrow> u32 \<times> u32 \<Rightarrow> u32 list" where
  "round [a, b, c, d, e, f, g, h] (k, w) =
     (let t1 = h + bsig1 e + ch e f g + k + w;
          t2 = bsig0 a + maj a b c
      in [t1 + t2, a, b, c, d + t1, e, f, g])"
| "round s _ = s"

definition compress :: "u32 list \<Rightarrow> byte list \<Rightarrow> u32 list" where
  "compress hs block =
     map2 (+) hs (foldl round hs (zip sha256_K (schedule 48 (be_words block))))"

fun blocks :: "nat \<Rightarrow> byte list \<Rightarrow> u32 list \<Rightarrow> u32 list" where
  "blocks 0 bs hs = hs"
| "blocks (Suc n) bs hs = blocks n (drop 64 bs) (compress hs (take 64 bs))"

definition word_bytes :: "u32 \<Rightarrow> byte list" where
  "word_bytes w = [ucast (drop_bit 24 w), ucast (drop_bit 16 w), ucast (drop_bit 8 w), ucast w]"

definition sha256 :: "byte list \<Rightarrow> byte list" where
  "sha256 m = (let p = pad m in concat (map word_bytes (blocks (length p div 64) p sha256_H0)))"

definition hexdigit :: "nat \<Rightarrow> nat" where
  "hexdigit d = (if d < 10 then 48 + d else 87 + d)"

definition hexdigest :: "byte list \<Rightarrow> pystr" where
  "hexdigest bs = concat (map (\<lambda>b. [hexdigit (unat b div 16), hexdigit (unat b mod 16)]) bs)"


section \<open>JSON values and the Python operations used on them\<close>

text \<open>
  What \<open>json.load\<close> returns. An object keeps its keys in order, as a Python \<open>dict\<close>
  does; the objects that \<open>json.load\<close> builds have no key twice.
\<close>

datatype json =
    JNull
  | JBool bool
  | JNum int
  | JStr pystr
  | JArr "json list"
  | JObj "(pystr \<times> json) list"

fun contains :: "pystr \<Rightarrow> pystr \<Rightarrow> bool" where
  "contains k [] = (k = [])"
| "contains k (c # cs) = (take (length k) (c # cs) = k \<or> contains k cs)"

text \<open>
  \<open>key in obj\<close> for a \<open>str\<close> key: membership of a key in a \<open>dict\<close>, of an element in a
  list, of a substring in a \<open>str\<close>; \<open>TypeError\<close> on the other values.
\<close>

fun py_in :: "pystr \<Rightarrow> json \<Rightarrow> exn + bool" where
  "py_in k (JObj kvs) = Inr (map_of kvs k \<noteq> None)"
| "py_in k (JArr xs) = Inr (JStr k \<in> set xs)"
| "py_in k (JStr s) = Inr (contains k s)"
| "py_in k _ = Inl TypeError"

text \<open>\<open>obj[key]\<close> for a \<open>str\<close> key: only a \<open>dict\<close> accepts it.\<close>

fun getitem :: "json \<Rightarrow> pystr \<Rightarrow> exn + json" where
  "getitem (JObj kvs) k = (case map_of kvs k of None \<Rightarrow> Inl (KeyError k) | Some v \<Rightarrow> Inr v)"
| "getitem _ k = Inl TypeError"

text \<open>\<open>obj[key] = v\<close>: a new key goes last, an old one keeps its place.\<close>

fun setitem :: "json \<Rightarrow> pystr \<Rightarrow> json \<Rightarrow> exn + json" where
  "setitem (JObj kvs) k v = Inr (JObj (AList.update k v kvs))"
| "setitem _ k v = Inl TypeError"

section \<open>The credential store: \<open>AuthenticationSystem\<close>\<close>

definition hash_password :: "pystr \<Rightarrow> exn + pystr" where
  "hash_password password =
     (case encode password of Inl e \<Rightarrow> Inl e | Inr bs \<Rightarrow> Inr (hexdigest (sha256 bs)))"


definition verify_password :: "pystr \<Rightarrow> json \<Rightarrow> exn + bool" where
  "verify_password password hashed =
     (case hash_password password of Inl e \<Rightarrow> Inl e | Inr h \<Rightarrow> Inr (JStr h = hashed))"

text \<open>
  \<open>users.json\<close> as the code sees it: \<open>os.path.exists\<close> is false for \<open>Missing\<close>;
  \<open>File r\<close> exists, and \<open>open(..., 'r')\<close> followed by \<open>json.load\<close> gives \<open>r\<close>, an
  exception (unreadable or corrupt file) or the decoded value. \<open>json.dump\<close> followed by
  \<open>json.load\<close> gives back the value written, so a successful write stores the value.

  Writing is \<open>with open(..., 'w') as f: json.dump(users, f, indent=4)\<close>, and it can fail
  at two places, which \<open>users_write\<close> tells apart: \<open>AtOpen e\<close> when \<open>open\<close> itself
  raises, before the file is touched; \<open>AfterOpen e\<close> when \<open>open\<close> has truncated the file
  and the writing then raises (a full disk, a size limit), which leaves a file holding at
  most a beginning of the JSON text, one that \<open>json.load\<close> rejects.
\<close>

text \<open>
  The values of a registration record, and \<open>yoka_data.csv\<close> as the sequence of lines
  that \<open>DataFrame.to_csv\<close> was asked to write: the header (the column names) and one
  row of values for each record. How pandas renders a line as text and reads it back
  (\<open>read_csv\<close>) is not part of this program; \<open>load_data\<close> takes the reader as an argument.
\<close>

datatype pyval = VStr pystr | VInt int

datatype line = Header "string list" | Row "pyval list"

datatype stored = Missing | File "exn + json"

datatype write_failure = AtOpen exn | AfterOpen exn

fun raised :: "write_failure \<Rightarrow> exn" where
  "raised (AtOpen e) = e"
| "raised (AfterOpen e) = e"

record fs =
  users_file :: stored
  users_write :: "write_failure option"
  data_file :: "line list option"
  data_write :: "exn option"

definition load_users :: "fs \<Rightarrow> exn + json" where
  "load_users s = (case users_file s of Missing \<Rightarrow> Inl FileNotFoundError | File r \<Rightarrow> r)"

text \<open>
  A failed write is the exception together with the state it leaves behind.
\<close>

definition dump_users :: "json \<Rightarrow> fs \<Rightarrow> exn \<times> fs + fs" where
  "dump_users v s =
     (case users_write s of
        None \<Rightarrow> Inr (s\<lparr>users_file := File (Inr v)\<rparr>)
      | Some (AtOpen e) \<Rightarrow> Inl (e, s)
      | Some (AfterOpen e) \<Rightarrow> Inl (e, s\<lparr>users_file := File (Inl JSONDecodeError)\<rparr>))"

text \<open>
  The second component of the pairs that \<open>add_user\<close> and \<open>authenticate\<close> return: a
  value read from the store (the role), a literal message, or a formatted message
  \<open>f"<prefix>{str(e)}"\<close>, kept as its prefix and the exception.
\<close>

datatype reply = Value json | Text string | ErrorText string exn

definition user_record :: "pystr \<Rightarrow> pystr \<Rightarrow> pystr \<Rightarrow> json" where
  "user_record h role email =
     JObj [(py ''password'', JStr h), (py ''role'', JStr role), (py ''email'', JStr email)]"

definition initialize_users :: "fs \<Rightarrow> exn \<times> fs + fs" where
  "initialize_users s =
     (if users_file s = Missing then
        (case hash_password (py ''admin123'') of
           Inl e \<Rightarrow> Inl (e, s)
         | Inr h \<Rightarrow>
             dump_users
               (JObj [(py ''admin'', user_record h (py ''admin'') (py ''admin@yoka.knust.edu.gh''))]) s)
      else Inr s)"

definition add_user :: "pystr \<Rightarrow> pystr \<Rightarrow> pystr \<Rightarrow> pystr \<Rightarrow> fs \<Rightarrow> (bool \<times> reply) \<times> fs" where
  "add_user username password role email s =
     (let err = (\<lambda>e. ((False, ErrorText ''Error creating user: '' e), s)) in
      case load_users s of
        Inl e \<Rightarrow> err e
      | Inr users \<Rightarrow>
          (case py_in username users of
             Inl e \<Rightarrow> err e
           | Inr True \<Rightarrow> ((False, Text ''Username already exists''), s)
           | Inr False \<Rightarrow>
               (case hash_password password of
                  Inl e \<Rightarrow> err e
                | Inr h \<Rightarrow>
                    (case setitem users username (user_record h role email) of
                       Inl e \<Rightarrow> err e
                     | Inr users' \<Rightarrow>
                         (case dump_users users' s of
                            Inl (e, s1) \<Rightarrow> ((False, ErrorText ''Error creating user: '' e), s1)
                          | Inr s' \<Rightarrow> ((True, Text ''User created successfully''), s'))))))"

definition authenticate :: "pystr \<Rightarrow> pystr \<Rightarrow> fs \<Rightarrow> bool \<times> reply" where
  "authenticate username password s =
     (let err = (\<lambda>e. (False, ErrorText ''Authentication error: '' e)) in
      case load_users s of
        Inl e \<Rightarrow> err e
      | Inr users \<Rightarrow>
          (case py_in username users of
             Inl e \<Rightarrow> err e
           | Inr False \<Rightarrow> (False, Text ''Invalid credentials'')
           | Inr True \<Rightarrow>
               (case getitem users username of
                  Inl e \<Rightarrow> err e
                | Inr u \<Rightarrow>
                    (case getitem u (py ''password'') of
                       Inl e \<Rightarrow> err e
                     | Inr stored \<Rightarrow>
                         (case verify_password password stored of
                            Inl e \<Rightarrow> err e
                          | Inr False \<Rightarrow> (False, Text ''Invalid credentials'')
                          | Inr True \<Rightarrow>
                              (case getitem u (py ''role'') of
                                 Inl e \<Rightarrow> err e
                               | Inr r \<Rightarrow> (True, Value r)))))))"

definition get_users :: "fs \<Rightarrow> json" where
  "get_users s = (case load_users s of Inl e \<Rightarrow> JObj [] | Inr users \<Rightarrow> users)"




definition hex_chars :: "nat set" where
  "hex_chars = set (py ''0123456789abcdef'')"

section \<open>The record store: \<open>YokaInformationSystem\<close>\<close>

definition columns :: "string list" where
  "columns =
    [''timestamp'', ''official_name'', ''date_of_birth'', ''age'', ''phone_numbers'',
     ''email'', ''interests_skills'', ''on_campus_business'', ''business_name_type'',
     ''father_name'', ''father_phone'', ''father_church_member'', ''father_branch'',
     ''father_position'', ''father_occupation'',
     ''mother_name'', ''mother_phone'', ''mother_church_member'', ''mother_branch'',
     ''mother_position'', ''mother_occupation'',
     ''guardian_name'', ''guardian_phone'', ''guardian_church_member'', ''guardian_branch'',
     ''guardian_position'', ''guardian_occupation'',
     ''school_name'', ''program'', ''current_class'', ''hostel_hall'', ''room_number'',
     ''church_branch'', ''branch_pastor'', ''shepherd_group'', ''yoka_position'',
     ''submitted_by'']"

definition write_data :: "line list \<Rightarrow> fs \<Rightarrow> exn + fs" where
  "write_data ls s =
     (case data_write s of Some e \<Rightarrow> Inl e | None \<Rightarrow> Inr (s\<lparr>data_file := Some ls\<rparr>))"

definition initialize_data :: "fs \<Rightarrow> exn + fs" where
  "initialize_data s =
     (if data_file s = None then write_data [Header columns] s else Inr s)"

definition save_data :: "(string \<times> pyval) list \<Rightarrow> fs \<Rightarrow> exn + fs" where
  "save_data data s =
     (case data_file s of
        Some ls \<Rightarrow> write_data (ls @ [Row (map snd data)]) s
      | None \<Rightarrow> write_data [Header (map fst data), Row (map snd data)] s)"

definition load_data :: "(line list \<Rightarrow> exn + 't) \<Rightarrow> 't \<Rightarrow> fs \<Rightarrow> 't" where
  "load_data read_csv no_rows s =
     (case data_file s of
        Some ls \<Rightarrow> (case read_csv ls of Inl e \<Rightarrow> no_rows | Inr t \<Rightarrow> t)
      | None \<Rightarrow> no_rows)"

section \<open>The registration form: the submit branch of \<open>main_application\<close>\<close>

text \<open>
  The values of the widgets. A radio button is \<open>True\<close> for \<open>"Yes"\<close>; the date widget
  always holds a date; the branch, position and business inputs are shown only when their
  radio button says yes, and are the empty string otherwise.
\<close>

record date =
  year :: nat
  month :: nat
  day :: nat

record parent =
  name :: pystr
  phone :: pystr
  church_member :: bool
  branch :: pystr
  position :: pystr
  occupation :: pystr

record form =
  official_name :: pystr
  date_of_birth :: date
  age :: int
  phone_numbers :: pystr
  email :: pystr
  interests_skills :: pystr
  on_campus_business :: bool
  business_name_type :: pystr
  father :: parent
  mother :: parent
  guardian :: parent
  school_name :: pystr
  program :: pystr
  current_class :: pystr
  hostel_hall :: pystr
  room_number :: pystr
  church_branch :: pystr
  branch_pastor :: pystr
  shepherd_group :: pystr
  yoka_position :: pystr

datatype field = FStr pystr | FInt int | FDate date

text \<open>Python's truth value: an empty string and zero are false, a date is true.\<close>

fun truthy :: "field \<Rightarrow> bool" where
  "truthy (FStr v) = (v \<noteq> [])"
| "truthy (FInt n) = (n \<noteq> 0)"
| "truthy (FDate d) = True"

definition required_fields :: "form \<Rightarrow> (string \<times> field) list" where
  "required_fields f =
    [(''Official Name'', FStr (official_name f)),
     (''Date of Birth'', FDate (date_of_birth f)),
     (''Age'', FInt (age f)),
     (''Phone Numbers'', FStr (phone_numbers f)),
     (''Email'', FStr (email f)),
     (''School Name'', FStr (school_name f)),
     (''Program'', FStr (program f)),
     (''Current Class'', FStr (current_class f)),
     (''Church Branch'', FStr (church_branch f)),
     (''Branch Pastor'', FStr (branch_pastor f))]"

definition missing_fields :: "form \<Rightarrow> string list" where
  "missing_fields f = map fst (filter (\<lambda>fv. \<not> truthy (snd fv)) (required_fields f))"

fun join :: "string \<Rightarrow> string list \<Rightarrow> string" where
  "join sep [] = []"
| "join sep [x] = x"
| "join sep (x # y # ys) = x @ sep @ join sep (y # ys)"

fun digits :: "nat \<Rightarrow> nat \<Rightarrow> pystr" where
  "digits 0 n = []"
| "digits (Suc w) n = digits w (n div 10) @ [48 + n mod 10]"

fun decimal :: "nat \<Rightarrow> pystr" where
  "decimal n = (if n < 10 then [48 + n] else decimal (n div 10) @ [48 + n mod 10])"

declare decimal.simps [simp del]

text \<open>
  \<open>strftime("%Y-%m-%d")\<close> as CPython prints it with glibc: the year is not padded,
  the month and the day have two digits.
\<close>

definition strftime_ymd :: "date \<Rightarrow> pystr" where
  "strftime_ymd d = decimal (year d) @ py ''-'' @ digits 2 (month d) @ py ''-'' @ digits 2 (day d)"

definition yes_no :: "bool \<Rightarrow> pystr" where
  "yes_no b = (if b then py ''Yes'' else py ''No'')"

definition parent_data :: "string \<Rightarrow> parent \<Rightarrow> (string \<times> pyval) list" where
  "parent_data who p =
    [(who @ ''_name'', VStr (name p)),
     (who @ ''_phone'', VStr (phone p)),
     (who @ ''_church_member'', VStr (yes_no (church_member p))),
     (who @ ''_branch'', VStr (if church_member p then branch p else [])),
     (who @ ''_position'', VStr (if church_member p then position p else [])),
     (who @ ''_occupation'', VStr (occupation p))]"

definition form_data :: "pystr \<Rightarrow> pystr \<Rightarrow> form \<Rightarrow> (string \<times> pyval) list" where
  "form_data now username f =
    [(''timestamp'', VStr now),
     (''official_name'', VStr (official_name f)),
     (''date_of_birth'', VStr (strftime_ymd (date_of_birth f))),
     (''age'', VInt (age f)),
     (''phone_numbers'', VStr (phone_numbers f)),
     (''email'', VStr (email f)),
     (''interests_skills'', VStr (interests_skills f)),
     (''on_campus_business'', VStr (yes_no (on_campus_business f))),
     (''business_name_type'', VStr (if on_campus_business f then business_name_type f else []))]
    @ parent_data ''father'' (father f)
    @ parent_data ''mother'' (mother f)
    @ parent_data ''guardian'' (guardian f)
    @ [(''school_name'', VStr (school_name f)),
       (''program'', VStr (program f)),
       (''current_class'', VStr (current_class f)),
       (''hostel_hall'', VStr (hostel_hall f)),
       (''room_number'', VStr (room_number f)),
       (''church_branch'', VStr (church_branch f)),
       (''branch_pastor'', VStr (branch_pastor f)),
       (''shepherd_group'', VStr (shepherd_group f)),
       (''yoka_position'', VStr (yoka_position f)),
       (''submitted_by'', VStr username)]"

datatype banner = ErrorBanner string | SuccessBanner

definition submit :: "pystr \<Rightarrow> pystr \<Rightarrow> form \<Rightarrow> fs \<Rightarrow> exn + banner \<times> fs" where
  "submit now username f s =
     (let missing = missing_fields f in
      if missing \<noteq> [] then
        Inr (ErrorBanner (''Please fill in the following required fields: '' @ join '', '' missing), s)
      else
        (case save_data (form_data now username f) s of
           Inl e \<Rightarrow> Inl e
         | Inr s' \<Rightarrow> Inr (SuccessBanner, s')))"


definition pw1_digest :: pystr where
  "pw1_digest = hexdigest (sha256 (concat (map utf8_char (py ''pw1''))))"


text \<open>Further example states: no store and no way to write one; a fresh directory.\<close>

definition read_only_missing :: fs where
  "read_only_missing = \<lparr>users_file = Missing, users_write = Some (AtOpen PermissionError),
                         data_file = None, data_write = None\<rparr>"

definition fresh :: fs where
  "fresh = \<lparr>users_file = Missing, users_write = None, data_file = None, data_write = None\<rparr>"

definition admin_digest :: pystr where
  "admin_digest = hexdigest (sha256 (concat (map utf8_char (py ''admin123''))))"

definition carol_store :: fs where
  "carol_store = \<lparr>users_file = File (Inr (JObj [(py ''carol'', user_record (py ''x'') (py ''user'') [])])),
                   users_write = None, data_file = None, data_write = None\<rparr>"

definition seeded :: fs where
  "seeded = \<lparr>users_file = File (Inr (JObj [(py ''admin'',
                 user_record admin_digest (py ''admin'') (py ''admin@yoka.knust.edu.gh''))])),
              users_write = None, data_file = None, data_write = None\<rparr>"


definition corrupt_store :: fs where
  "corrupt_store = \<lparr>users_file = File (Inl JSONDecodeError), users_write = None,
                     data_file = None, data_write = None\<rparr>"

definition full_disk_store :: fs where
  "full_disk_store = \<lparr>users_file = File (Inr (JObj [])), users_write = Some (AfterOpen OSError),
                       data_file = None, data_write = None\<rparr>"

text \<open>An example form with every required field filled in, and a store with one row.\<close>

definition nobody :: parent where
  "nobody = \<lparr>name = [], phone = [], church_member = False, branch = [], position = [], occupation = []\<rparr>"

definition ama_form :: form where
  "ama_form = \<lparr>official_name = py ''Ama Mensah'', date_of_birth = \<lparr>year = 2003, month = 4, day = 9\<rparr>,
     age = 21, phone_numbers = py ''0241234567'', email = py ''ama@example.com'',
     interests_skills = py ''reading, music'', on_campus_business = False, business_name_type = [],
     father = nobody, mother = nobody, guardian = nobody,
     school_name = py ''KNUST'', program = py ''Computer Science'', current_class = py ''Level 300'',
     hostel_hall = [], room_number = [], church_branch = py ''Ayeduase'',
     branch_pastor = py ''Rev. Owusu'', shepherd_group = [], yoka_position = []\<rparr>"

definition data_store :: fs where
  "data_store = \<lparr>users_file = File (Inr (JObj [])), users_write = None,
                  data_file = Some [Header columns], data_write = None\<rparr>"

section \<open>Properties of hashing\<close>

lemma encode_encodable: "encodable p \<Longrightarrow> encode p = Inr (concat (map utf8_char p))"
  by (induction p) (simp_all add: encodable_def)

lemma hash_password_encodable:
  "encodable p \<Longrightarrow> hash_password p = Inr (hexdigest (sha256 (concat (map utf8_char p))))"
  by (simp add: hash_password_def encode_encodable)

lemma hexdigit_in: 
  assumes "d < 16" shows "hexdigit d \<in> hex_chars"
proof -
  from assms have "d = 0 \<or> d = 1 \<or> d = 2 \<or> d = 3 \<or> d = 4 \<or> d = 5 \<or> d = 6 \<or> d = 7 \<or> d = 8
      \<or> d = 9 \<or> d = 10 \<or> d = 11 \<or> d = 12 \<or> d = 13 \<or> d = 14 \<or> d = 15"
    by arith
  then show ?thesis
    by (auto simp: hexdigit_def hex_chars_def py_def)
qed

lemma hexdigest_chars: "set (hexdigest bs) \<subseteq> hex_chars"
proof -
  have "unat b div 16 < 16" for b :: byte
    using unsigned_less [of b, where 'a = nat] by simp
  then show ?thesis
    by (auto simp: hexdigest_def hexdigit_in)
qed

lemma length_hexdigest: "length (hexdigest bs) = 2 * length bs"
  by (induction bs) (simp_all add: hexdigest_def)

lemma length_round: "length s = 8 \<Longrightarrow> length (round s kw) = 8"
  by (cases kw) (auto simp: length_Suc_conv numeral_eq_Suc Let_def)

lemma length_foldl_round: "length s = 8 \<Longrightarrow> length (foldl round s kws) = 8"
  by (induction kws arbitrary: s) (simp_all add: length_round)

lemma length_compress: "length hs = 8 \<Longrightarrow> length (compress hs b) = 8"
  by (simp add: compress_def length_foldl_round)

lemma length_blocks: "length hs = 8 \<Longrightarrow> length (blocks n bs hs) = 8"
  by (induction n arbitrary: bs hs) (simp_all add: length_compress)

lemma length_sha256: "length (sha256 m) = 32"
proof -
  have "length (concat (map word_bytes ws)) = 4 * length ws" for ws
    by (induction ws) (simp_all add: word_bytes_def)
  then show ?thesis
    by (simp add: sha256_def Let_def length_blocks sha256_H0_def)
qed

lemma hash_password_shape:
  assumes "hash_password p = Inr h"
  shows "length h = 64 \<and> set h \<subseteq> hex_chars"
  using assms
  by (auto simp: hash_password_def length_hexdigest length_sha256 split: sum.splits
      dest: subsetD [OF hexdigest_chars])

text \<open>
  Claim C3. \<open>hash_password\<close> is a function of the password alone (it takes no state):
  for every password that has a UTF-8 encoding, which is every string of Unicode scalar
  values, non-ASCII ones included, it returns 64 lowercase hexadecimal digits, and
  \<open>verify_password\<close> accepts the password against that digest.
\<close>

theorem hash_verify_roundtrip:
  assumes "encodable p"
  shows "\<exists>h. hash_password p = Inr h \<and> verify_password p (JStr h) = Inr True
           \<and> length h = 64 \<and> set h \<subseteq> hex_chars"
proof -
  obtain h where h: "hash_password p = Inr h"
    using assms hash_password_encodable by blast
  moreover have "verify_password p (JStr h) = Inr True"
    by (simp add: verify_password_def h)
  ultimately show ?thesis
    using hash_password_shape [OF h] by blast
qed

theorem hash_verify_roundtrip_witness:
  "encodable [112, 64, 228, 8364, 128512] \<and>
   (\<exists>h. hash_password [112, 64, 228, 8364, 128512] = Inr h
       \<and> verify_password [112, 64, 228, 8364, 128512] (JStr h) = Inr True
       \<and> length h = 64 \<and> set h \<subseteq> hex_chars)"
proof -
  have e: "encodable [112, 64, 228, 8364, 128512]"
    by (simp add: encodable_def surrogate_def)
  show ?thesis
    using e hash_verify_roundtrip [OF e] by simp
qed

text \<open>
  A lone surrogate has no UTF-8 encoding: \<open>encode\<close> raises, and so does
  \<open>hash_password\<close>. Such a string is not Unicode text and is outside the claim above.
\<close>

lemma hash_password_surrogate: "hash_password [0xD800] = Inl UnicodeEncodeError"
  by (simp add: hash_password_def surrogate_def)

section \<open>Properties of the credential store\<close>


lemma py_neq: "py ''password'' \<noteq> py ''role''" "py ''role'' \<noteq> py ''password''"
  by (simp_all add: py_def)

lemma user_record_password: "getitem (user_record h r e) (py ''password'') = Inr (JStr h)"
  by (simp add: user_record_def)

lemma user_record_role: "getitem (user_record h r e) (py ''role'') = Inr (JStr r)"
  by (simp add: user_record_def py_neq)


lemma authenticate_present:
  assumes "load_users s = Inr (JObj kvs)" and "map_of kvs u = Some rec"
    and "getitem rec (py ''password'') = Inr stored" and "hash_password p = Inr h"
    and "getitem rec (py ''role'') = Inr r"
  shows "authenticate u p s = (if JStr h = stored then (True, Value r) else (False, Text ''Invalid credentials''))"
  using assms by (simp add: authenticate_def Let_def verify_password_def)



lemma hash_pw1: "hash_password (py ''pw1'') = Inr pw1_digest"
  unfolding pw1_digest_def
  by (rule hash_password_encodable) (simp add: encodable_def py_def surrogate_def)








lemma hash_admin123: "hash_password (py ''admin123'') = Inr admin_digest"
  unfolding admin_digest_def
  by (rule hash_password_encodable) (simp add: encodable_def py_def surrogate_def)



text \<open>
  Claim C4. Where \<open>users.json\<close> does not exist (and can be written), \<open>initialize_users\<close>
  creates it with the single record of \<open>admin\<close>: the SHA-256 digest of \<open>admin123\<close>, the
  role \<open>admin\<close> and the administrator's email; \<open>authenticate\<close> then accepts
  \<open>admin\<close> with \<open>admin123\<close> and returns the role \<open>admin\<close>. Where the file exists,
  nothing changes and nothing is raised.
\<close>

theorem initialize_users_seeds_admin:
  "(users_file s = Missing \<longrightarrow> users_write s = None \<longrightarrow>
      (\<exists>s'. initialize_users s = Inr s'
         \<and> load_users s' = Inr (JObj [(py ''admin'',
               user_record admin_digest (py ''admin'') (py ''admin@yoka.knust.edu.gh''))])
         \<and> authenticate (py ''admin'') (py ''admin123'') s' = (True, Value (JStr (py ''admin'')))))
   \<and> (users_file s \<noteq> Missing \<longrightarrow> initialize_users s = Inr s)"
proof (intro conjI impI)
  let ?kvs = "[(py ''admin'', user_record admin_digest (py ''admin'') (py ''admin@yoka.knust.edu.gh''))]"
  let ?s' = "s\<lparr>users_file := File (Inr (JObj ?kvs))\<rparr>"
  assume "users_file s = Missing" "users_write s = None"
  then have i: "initialize_users s = Inr ?s'"
    by (simp add: initialize_users_def hash_admin123 dump_users_def)
  have l: "load_users ?s' = Inr (JObj ?kvs)"
    by (simp add: load_users_def)
  have m: "map_of ?kvs (py ''admin'') = Some (snd (hd ?kvs))"
    by simp
  have "authenticate (py ''admin'') (py ''admin123'') ?s' = (True, Value (JStr (py ''admin'')))"
    using authenticate_present [OF l m _ hash_admin123, of "JStr admin_digest" "JStr (py ''admin'')"]
    by (simp add: user_record_password user_record_role)
  with i l show "\<exists>s'. initialize_users s = Inr s'
         \<and> load_users s' = Inr (JObj ?kvs)
         \<and> authenticate (py ''admin'') (py ''admin123'') s' = (True, Value (JStr (py ''admin'')))"
    by blast
next
  assume "users_file s \<noteq> Missing"
  then show "initialize_users s = Inr s"
    by (simp add: initialize_users_def)
qed

theorem initialize_users_seeds_admin_witness:
  "users_file fresh = Missing \<and> users_write fresh = None
   \<and> initialize_users fresh = Inr seeded
   \<and> authenticate (py ''admin'') (py ''admin123'') seeded = (True, Value (JStr (py ''admin'')))
   \<and> users_file seeded \<noteq> Missing \<and> initialize_users seeded = Inr seeded"
proof -
  have f: "users_file fresh = Missing" "users_write fresh = None"
    by (simp_all add: fresh_def)
  have i: "initialize_users fresh = Inr seeded"
    by (simp add: initialize_users_def fresh_def seeded_def hash_admin123 dump_users_def)
  have n: "users_file seeded \<noteq> Missing"
    by (simp add: seeded_def)
  show ?thesis
    using f i n initialize_users_seeds_admin [of fresh] initialize_users_seeds_admin [of seeded]
    by auto
qed

text \<open>
  Claim C5. The two ways of failing give the same result: an unknown username, and a known
  username with a password that does not verify, both return
  \<open>(False, "Invalid credentials")\<close>.
\<close>

theorem authenticate_failure_indistinguishable:
  assumes "load_users s = Inr (JObj kvs)" and "map_of kvs u1 = None"
    and "map_of kvs u2 = Some rec" and "getitem rec (py ''password'') = Inr stored"
    and "verify_password p2 stored = Inr False"
  shows "authenticate u1 p1 s = (False, Text ''Invalid credentials'')
       \<and> authenticate u2 p2 s = (False, Text ''Invalid credentials'')
       \<and> authenticate u1 p1 s = authenticate u2 p2 s"
  using assms by (simp add: authenticate_def Let_def)

lemma verify_short: "hash_password p = Inr h \<Longrightarrow> verify_password p (JStr (py ''x'')) = Inr False"
  using hash_password_shape [of p h] by (auto simp: verify_password_def py_def)

theorem authenticate_failure_indistinguishable_witness:
  "load_users carol_store = Inr (JObj [(py ''carol'', user_record (py ''x'') (py ''user'') [])])
   \<and> map_of [(py ''carol'', user_record (py ''x'') (py ''user'') [])] (py ''eve'') = None
   \<and> map_of [(py ''carol'', user_record (py ''x'') (py ''user'') [])] (py ''carol'')
        = Some (user_record (py ''x'') (py ''user'') [])
   \<and> verify_password (py ''pw1'') (JStr (py ''x'')) = Inr False
   \<and> authenticate (py ''eve'') (py ''pw1'') carol_store = (False, Text ''Invalid credentials'')
   \<and> authenticate (py ''carol'') (py ''pw1'') carol_store = (False, Text ''Invalid credentials'')"
proof -
  have l: "load_users carol_store = Inr (JObj [(py ''carol'', user_record (py ''x'') (py ''user'') [])])"
    by (simp add: load_users_def carol_store_def)
  have a: "map_of [(py ''carol'', user_record (py ''x'') (py ''user'') [])] (py ''eve'') = None"
    by (simp add: py_def)
  have b: "map_of [(py ''carol'', user_record (py ''x'') (py ''user'') [])] (py ''carol'')
        = Some (user_record (py ''x'') (py ''user'') [])"
    by simp
  have v: "verify_password (py ''pw1'') (JStr (py ''x'')) = Inr False"
    by (rule verify_short [OF hash_pw1])
  show ?thesis
    using l a b v authenticate_failure_indistinguishable [OF l a b user_record_password v, of "py ''pw1''"]
    by simp
qed

text \<open>
  Claim C8, as the code has it. \<open>add_user\<close>, \<open>authenticate\<close> and \<open>get_users\<close> return a
  value in every state (they are total functions into their result types). When the store
  cannot be read, \<open>add_user\<close> and \<open>authenticate\<close> return \<open>False\<close> with a message formatted
  from the exception, and \<open>get_users\<close> returns the empty mapping; when writing the store
  fails, at \<open>open\<close> or after it, \<open>add_user\<close> returns \<open>False\<close> with such a message.
  \<open>initialize_users\<close> has no handler: where the store is missing and writing it fails,
  the exception reaches the caller.
\<close>

theorem io_failure_results:
  "(load_users s = Inl e \<longrightarrow>
      add_user u p r mail s = ((False, ErrorText ''Error creating user: '' e), s)
      \<and> authenticate u p s = (False, ErrorText ''Authentication error: '' e)
      \<and> get_users s = JObj [])
   \<and> (load_users s = Inr (JObj kvs) \<longrightarrow> map_of kvs u = None \<longrightarrow> hash_password p = Inr h \<longrightarrow>
        users_write s = Some w \<longrightarrow>
        fst (add_user u p r mail s) = (False, ErrorText ''Error creating user: '' (raised w)))
   \<and> (users_file s = Missing \<longrightarrow> users_write s = Some w \<longrightarrow>
        (\<exists>s'. initialize_users s = Inl (raised w, s')))"
  by (cases w)
    (simp_all add: add_user_def authenticate_def get_users_def initialize_users_def Let_def
      dump_users_def hash_admin123)

theorem io_failure_results_witness:
  "load_users corrupt_store = Inl JSONDecodeError
   \<and> add_user (py ''bob'') (py ''pw1'') (py ''user'') [] corrupt_store
        = ((False, ErrorText ''Error creating user: '' JSONDecodeError), corrupt_store)
   \<and> authenticate (py ''bob'') (py ''pw1'') corrupt_store
        = (False, ErrorText ''Authentication error: '' JSONDecodeError)
   \<and> get_users corrupt_store = JObj []
   \<and> load_users full_disk_store = Inr (JObj [])
   \<and> users_write full_disk_store = Some (AfterOpen OSError)
   \<and> fst (add_user (py ''bob'') (py ''pw1'') (py ''user'') [] full_disk_store)
        = (False, ErrorText ''Error creating user: '' OSError)
   \<and> users_file read_only_missing = Missing
   \<and> users_write read_only_missing = Some (AtOpen PermissionError)
   \<and> (\<exists>s'. initialize_users read_only_missing = Inl (PermissionError, s'))"
proof -
  have c: "load_users corrupt_store = Inl JSONDecodeError"
    by (simp add: load_users_def corrupt_store_def)
  have r: "load_users full_disk_store = Inr (JObj [])"
    "users_write full_disk_store = Some (AfterOpen OSError)"
    by (simp_all add: load_users_def full_disk_store_def)
  have m: "users_file read_only_missing = Missing"
    "users_write read_only_missing = Some (AtOpen PermissionError)"
    by (simp_all add: read_only_missing_def)
  show ?thesis
    using c r m hash_pw1
      io_failure_results [of corrupt_store JSONDecodeError "py ''bob''" "py ''pw1''" "py ''user''" "[]"]
      io_failure_results [of full_disk_store _ "py ''bob''" "py ''pw1''" "py ''user''" "[]" "[]" pw1_digest
        "AfterOpen OSError"]
      io_failure_results [of read_only_missing _ _ _ _ _ _ _ "AtOpen PermissionError"]
    by simp
qed

theorem initialize_users_raises:
  "initialize_users read_only_missing = Inl (PermissionError, read_only_missing)"
  by (simp add: initialize_users_def read_only_missing_def hash_admin123 dump_users_def)

text \<open>
  What a failed write leaves behind: nothing has changed when \<open>open\<close> fails; after a
  failure that follows \<open>open\<close>, the file no longer holds the users, and reading it fails.
\<close>

lemma add_user_failed_write:
  assumes "load_users s = Inr (JObj kvs)" and "map_of kvs u = None"
    and "hash_password p = Inr h" and "users_write s = Some w"
  shows "snd (add_user u p r mail s) =
           (case w of AtOpen e \<Rightarrow> s | AfterOpen e \<Rightarrow> s\<lparr>users_file := File (Inl JSONDecodeError)\<rparr>)"
  using assms by (cases w) (simp_all add: add_user_def Let_def dump_users_def)

lemma add_user_full_disk:
  "add_user (py ''bob'') (py ''pw1'') (py ''user'') [] full_disk_store =
     ((False, ErrorText ''Error creating user: '' OSError),
      full_disk_store\<lparr>users_file := File (Inl JSONDecodeError)\<rparr>)"
  by (simp add: add_user_def Let_def load_users_def full_disk_store_def hash_pw1 dump_users_def)





section \<open>Properties of the record store\<close>

text \<open>
  The schema has 37 columns, and the record that the form builds has the same 37 keys in
  the same order, so a row appended without a header lines up with the header.
\<close>

lemma columns_length: "length columns = 37"
  by (simp add: columns_def)

lemma form_data_columns: "map fst (form_data now username f) = columns"
  by (simp add: form_data_def parent_data_def columns_def)

text \<open>
  \<open>save_data\<close> on an existing, writable store keeps the lines that are there and adds one
  row with the values of the record, in order and as they are.
\<close>

lemma save_data_appends:
  "data_file s = Some ls \<Longrightarrow> data_write s = None \<Longrightarrow>
   save_data data s = Inr (s\<lparr>data_file := Some (ls @ [Row (map snd data)])\<rparr>)"
  by (simp add: save_data_def write_data_def)

lemma save_data_creates:
  "data_file s = None \<Longrightarrow> data_write s = None \<Longrightarrow>
   save_data data s = Inr (s\<lparr>data_file := Some [Header (map fst data), Row (map snd data)]\<rparr>)"
  by (simp add: save_data_def write_data_def)

section \<open>Properties of the registration form\<close>

lemma join_one: "join sep [x] = x"
  by simp

text \<open>
  Claim C7. A submission with an empty required field is rejected: the answer is the error
  banner that lists, in the order of the form, the names of exactly the required fields
  that are empty; the state, and with it the record store and anything \<open>load_data\<close>
  reads from it, is unchanged. The date widget always holds a date, so the date of birth
  is never listed; the age is listed when it is zero.
\<close>

theorem submit_rejects_missing:
  assumes "official_name f = [] \<or> age f = 0 \<or> phone_numbers f = [] \<or> email f = []
         \<or> school_name f = [] \<or> program f = [] \<or> current_class f = []
         \<or> church_branch f = [] \<or> branch_pastor f = []"
  shows "submit now username f s =
           Inr (ErrorBanner (''Please fill in the following required fields: ''
                  @ join '', '' (missing_fields f)), s)
     \<and> missing_fields f \<noteq> []
     \<and> missing_fields f =
           (if official_name f = [] then [''Official Name''] else [])
         @ (if age f = 0 then [''Age''] else [])
         @ (if phone_numbers f = [] then [''Phone Numbers''] else [])
         @ (if email f = [] then [''Email''] else [])
         @ (if school_name f = [] then [''School Name''] else [])
         @ (if program f = [] then [''Program''] else [])
         @ (if current_class f = [] then [''Current Class''] else [])
         @ (if church_branch f = [] then [''Church Branch''] else [])
         @ (if branch_pastor f = [] then [''Branch Pastor''] else [])
     \<and> (case submit now username f s of
          Inl e \<Rightarrow> False
        | Inr (b, s') \<Rightarrow> data_file s' = data_file s
            \<and> load_data read_csv no_rows s' = load_data read_csv no_rows s)"
proof -
  have m: "missing_fields f =
           (if official_name f = [] then [''Official Name''] else [])
         @ (if age f = 0 then [''Age''] else [])
         @ (if phone_numbers f = [] then [''Phone Numbers''] else [])
         @ (if email f = [] then [''Email''] else [])
         @ (if school_name f = [] then [''School Name''] else [])
         @ (if program f = [] then [''Program''] else [])
         @ (if current_class f = [] then [''Current Class''] else [])
         @ (if church_branch f = [] then [''Church Branch''] else [])
         @ (if branch_pastor f = [] then [''Branch Pastor''] else [])"
    by (simp add: missing_fields_def required_fields_def)
  have n: "missing_fields f \<noteq> []"
    unfolding m using assms by auto
  have r: "submit now username f s =
         Inr (ErrorBanner (''Please fill in the following required fields: ''
                @ join '', '' (missing_fields f)), s)"
    using n by (simp add: submit_def Let_def)
  show ?thesis
    using m n r by simp
qed

theorem submit_rejects_missing_witness:
  "email (ama_form\<lparr>email := []\<rparr>) = []
   \<and> missing_fields (ama_form\<lparr>email := []\<rparr>) = [''Email'']
   \<and> submit (py ''2024-05-01 10:00:00'') (py ''bob'') (ama_form\<lparr>email := []\<rparr>) data_store
       = Inr (ErrorBanner ''Please fill in the following required fields: Email'', data_store)"
proof -
  let ?f = "ama_form\<lparr>email := []\<rparr>"
  have e: "email ?f = []" by simp
  have f: "official_name ?f \<noteq> []" "age ?f \<noteq> 0"
    "phone_numbers ?f \<noteq> []" "school_name ?f \<noteq> []"
    "program ?f \<noteq> []" "current_class ?f \<noteq> []"
    "church_branch ?f \<noteq> []" "branch_pastor ?f \<noteq> []"
    by (simp_all add: ama_form_def py_def)
  have t: "submit (py ''2024-05-01 10:00:00'') (py ''bob'') ?f data_store =
           Inr (ErrorBanner (''Please fill in the following required fields: ''
                  @ join '', '' (missing_fields ?f)), data_store)
         \<and> missing_fields ?f = [''Email'']"
    using e f submit_rejects_missing [of ?f "py ''2024-05-01 10:00:00''" "py ''bob''" data_store
        "\<lambda>ls. Inr ls" "[]"]
    by simp
  then have "missing_fields ?f = [''Email'']" by blast
  with t e show ?thesis by simp
qed

end
